theory Spec2Isabelle
  imports Main "HOL-Library.AList" "HOL-Library.Sublist"
begin

section \<open>The JupyterMC XBlock: configuration and derived launch parameters\<close>

text \<open>
  The development follows \<^verbatim>\<open>src/jupytermcxblock/xblock.py\<close>. Python strings are
  modelled as \<^typ>\<open>string\<close>; a character stands for one byte of the UTF-8 form of the text,
  which is what \<^verbatim>\<open>urllib.parse.quote\<close> works on. The operations on whole strings used
  here (comparison, concatenation, cutting at \<^verbatim>\<open>/\<close>) agree on both views.
  Dictionaries are association lists, so that the insertion order of Python's \<^verbatim>\<open>dict\<close>
  is kept. The option list of the interface selector is modelled as the tokens the file
  holds, since it does not read as a list; the properties and the handler are modelled as
  the class body writes them.
\<close>

subsection \<open>Python helpers\<close>

type_synonym py_dict = "(string \<times> string) list"

text \<open>\<^verbatim>\<open>d[k] = v\<close>: an existing key keeps its place, a new key goes last.\<close>

definition dict_setitem :: "py_dict \<Rightarrow> string \<Rightarrow> string \<Rightarrow> py_dict" where
  "dict_setitem d k v = AList.update k v d"

text \<open>\<^verbatim>\<open>d.get(k, default)\<close>.\<close>

definition dict_get :: "py_dict \<Rightarrow> string \<Rightarrow> string \<Rightarrow> string" where
  "dict_get d k dflt = (case map_of d k of None \<Rightarrow> dflt | Some v \<Rightarrow> v)"

text \<open>\<^verbatim>\<open>s.rfind(c)\<close>: the highest index of \<open>c\<close> in \<open>s\<close>, or \<open>-1\<close>.\<close>

fun rfind_from :: "string \<Rightarrow> char \<Rightarrow> int \<Rightarrow> int \<Rightarrow> int" where
  "rfind_from [] c i best = best"
| "rfind_from (x # xs) c i best = rfind_from xs c (i + 1) (if x = c then i else best)"

definition rfind :: "string \<Rightarrow> char \<Rightarrow> int" where
  "rfind s c = rfind_from s c 0 (- 1)"

text \<open>\<^verbatim>\<open>posixpath.basename\<close>: \<^verbatim>\<open>i = p.rfind('/') + 1; return p[i:]\<close>.\<close>

definition basename :: "string \<Rightarrow> string" where
  "basename p = (let i = rfind p (CHR ''/'') + 1 in drop (nat i) p)"

text \<open>\<^verbatim>\<open>s.strip("/")\<close>.\<close>

definition lstrip_slash :: "string \<Rightarrow> string" where
  "lstrip_slash s = dropWhile (\<lambda>c. c = CHR ''/'') s"

definition strip_slash :: "string \<Rightarrow> string" where
  "strip_slash s = rev (lstrip_slash (rev (lstrip_slash s)))"

text \<open>\<^verbatim>\<open>sep.join(parts)\<close>.\<close>

fun str_join :: "string \<Rightarrow> string list \<Rightarrow> string" where
  "str_join sep [] = []"
| "str_join sep [x] = x"
| "str_join sep (x # y # ys) = x @ sep @ str_join sep (y # ys)"

subsection \<open>\<^verbatim>\<open>urllib.parse.urlencode\<close> on a dictionary of strings\<close>

text \<open>
  \<^verbatim>\<open>_ALWAYS_SAFE\<close>: the bytes \<^verbatim>\<open>quote\<close> never escapes.
\<close>

definition ALWAYS_SAFE :: string where
  "ALWAYS_SAFE = ''ABCDEFGHIJKLMNOPQRSTUVWXYZabcdefghijklmnopqrstuvwxyz0123456789_.-~''"

definition hex_digits :: string where
  "hex_digits = ''0123456789ABCDEF''"

text \<open>One byte as \<^verbatim>\<open>'%{:02X}'\<close>.\<close>

definition pct_encode :: "char \<Rightarrow> string" where
  "pct_encode c =
     [CHR ''%'', hex_digits ! (of_char c div 16), hex_digits ! (of_char c mod 16)]"

definition quote_byte :: "string \<Rightarrow> char \<Rightarrow> string" where
  "quote_byte safe c = (if c \<in> set ALWAYS_SAFE \<or> c \<in> set safe then [c] else pct_encode c)"

definition quote :: "string \<Rightarrow> string \<Rightarrow> string" where
  "quote s safe = concat (map (quote_byte safe) s)"

text \<open>
  \<^verbatim>\<open>quote_plus(string, safe='')\<close>: without a space in the string it is \<^verbatim>\<open>quote\<close>;
  with one, the space is declared safe and then replaced by \<^verbatim>\<open>+\<close>.
\<close>

definition quote_plus :: "string \<Rightarrow> string" where
  "quote_plus s =
     (if CHR '' '' \<notin> set s then quote s []
      else map (\<lambda>c. if c = CHR '' '' then CHR ''+'' else c) (quote s '' ''))"

definition urlencode :: "py_dict \<Rightarrow> string" where
  "urlencode query = str_join ''&'' (map (\<lambda>(k, v). quote_plus k @ ''='' @ quote_plus v) query)"


subsection \<open>The block and what it inherits\<close>

text \<open>
  The fields declared by \<^verbatim>\<open>JupyterMCXBlock\<close>, and the two values it reads from
  \<^verbatim>\<open>LtiConsumerXBlock\<close> through \<^verbatim>\<open>super()\<close>. The base class belongs to an external
  library, so its values are taken as given.
\<close>

record xblock =
  display_name :: string
  urlbasepath :: string
  nb_git_repo :: string
  nb_git_branch :: string
  nb_git_file :: string
  lti_id :: string
  hub_url :: string
  super_launch_target :: string
  super_prefixed_custom_parameters :: py_dict

definition launch_url :: "xblock \<Rightarrow> string" where
  "launch_url self = hub_url self @ ''/hub/lti/launch''"

definition new_window_interfaces :: "string list" where
  "new_window_interfaces = [''rstudio'', ''openrefine'', ''Desktop'', ''code-server'']"

definition launch_target :: "xblock \<Rightarrow> string" where
  "launch_target self =
     (if urlbasepath self \<in> set new_window_interfaces then ''new_window''
      else super_launch_target self)"

definition lti_version :: "xblock \<Rightarrow> string" where
  "lti_version self = ''lti_1p1''"

text \<open>
  \<^verbatim>\<open>urllib.parse.urlparse(url).path\<close> is the standard library's; it is a parameter
  \<open>urlparse_path\<close> of everything that depends on it.
\<close>

definition hub_url_base_path :: "(string \<Rightarrow> string) \<Rightarrow> xblock \<Rightarrow> string" where
  "hub_url_base_path urlparse_path self = strip_slash (urlparse_path (hub_url self))"

definition no_document_interfaces :: "string list" where
  "no_document_interfaces = [''terminals/1'', ''rstudio'', ''openrefine'', ''Desktop'', ''code-server'']"

text \<open>
  \<^verbatim>\<open>next_query_params\<close> as it stands when \<^verbatim>\<open>urlencode\<close> reads it: the literal of
  lines 138-142, then the assignment of lines 145-146.
\<close>

definition next_query_params :: "xblock \<Rightarrow> py_dict" where
  "next_query_params self =
     (let params =
        [(''repo'', nb_git_repo self),
         (''branch'', nb_git_branch self),
         (''urlpath'', urlbasepath self @ ''/'' @ basename (nb_git_repo self) @ ''/'' @ nb_git_file self)]
      in if urlbasepath self \<in> set no_document_interfaces
         then dict_setitem params ''urlpath'' (urlbasepath self)
         else params)"

text \<open>\<^verbatim>\<open>next_query_params["urlpath"]\<close>; the key is always present.\<close>

definition urlpath :: "xblock \<Rightarrow> string" where
  "urlpath self = dict_get (next_query_params self) ''urlpath'' []"

definition next_url :: "(string \<Rightarrow> string) \<Rightarrow> xblock \<Rightarrow> string" where
  "next_url urlparse_path self =
     hub_url_base_path urlparse_path self @ ''/hub/user-redirect/git-pull?''
       @ urlencode (next_query_params self)"

text \<open>The line handed to \<^verbatim>\<open>logger.info\<close>, with its arguments filled in.\<close>

definition fetching_log_message :: "xblock \<Rightarrow> string" where
  "fetching_log_message self =
     ''Fetching git repo='' @ dict_get (next_query_params self) ''repo'' []
       @ '', branch='' @ dict_get (next_query_params self) ''branch'' []
       @ '', urlpath='' @ dict_get (next_query_params self) ''urlpath'' []"

definition prefixed_custom_parameters :: "(string \<Rightarrow> string) \<Rightarrow> xblock \<Rightarrow> py_dict" where
  "prefixed_custom_parameters urlparse_path self =
     dict_setitem (super_prefixed_custom_parameters self) ''next'' (next_url urlparse_path self)"

subsection \<open>Exceptions, and the names the module binds\<close>

text \<open>
  The exception kinds the handler tells apart: \<^verbatim>\<open>except LtiError\<close> matches the first
  only, \<^verbatim>\<open>except Exception\<close> matches every one of them.
\<close>

datatype exn = LtiError string | NameError string | ValueError string | OtherError string

text \<open>\<^verbatim>\<open>str(err)\<close>: the message the exception was raised with.\<close>

definition exn_str :: "exn \<Rightarrow> string" where
  "exn_str e =
     (case e of LtiError m \<Rightarrow> m | NameError m \<Rightarrow> m | ValueError m \<Rightarrow> m | OtherError m \<Rightarrow> m)"

text \<open>
  The global names of the module: its imports (lines 1-13) and its top-level assignments
  and class. Reading any other name that is not a builtin raises \<^verbatim>\<open>NameError\<close>;
  the names looked up below are not builtins.
\<close>

definition module_globals :: "string list" where
  "module_globals =
     [''logging'', ''os'', ''urllib'', ''settings'', ''LtiConsumerXBlock'', ''LtiError'',
      ''track_event'', ''_'', ''Response'', ''Scope'', ''String'', ''XBlock'',
      ''ResourceLoader'', ''LTI_1P1_ROLE_MAP'', ''logger'', ''JupyterMCXBlock'']"

definition load_global :: "string \<Rightarrow> exn + unit" where
  "load_global name = (if name \<in> set module_globals then Inr () else Inl (NameError name))"

definition LTI_1P1_ROLE_MAP :: py_dict where
  "LTI_1P1_ROLE_MAP =
     [(''student'', ''Student,Learner''),
      (''staff'', ''Administrator''),
      (''instructor'', ''Instructor'')]"

text \<open>Line 186: \<^verbatim>\<open>LTI_1P1_ROLE_MAP.get(role, 'Student,Learner')\<close>.\<close>

definition lti_1p1_role :: "string \<Rightarrow> string" where
  "lti_1p1_role r = dict_get LTI_1P1_ROLE_MAP r ''Student,Learner''"

subsection \<open>The launch handler\<close>

text \<open>
  What the handler obtains from the platform, the base class and the standard library is
  collected in \<open>runtime\<close>. Every method call and every property read there may raise, so
  each has a sum as its outcome, or says which exception it raises, if any; stored fields
  and attributes (\<^verbatim>\<open>has_score\<close>, \<^verbatim>\<open>lti_launch_url\<close>) are values. The delegate launch
  builder is seen through the sequence of calls made on it, from which
  \<^verbatim>\<open>generate_launch_request\<close> computes the launch parameters; \<open>builder_raises\<close> tells
  which of these calls raise. \<open>get_parameter_processors\<close> is the list of processors the
  generator yields, and \<open>get_parameter_processors_raises\<close> the exception it ends with, if
  it does.
\<close>

record real_user_data =
  user_username :: "string option"
  user_language :: "string option"

datatype consumer_call =
    SetUserData string string string "string option" "string option" "string option"
  | SetContextData string string string
  | SetOutcomeServiceUrl string
  | SetLaunchPresentationLocale string
  | SetCustomParameters py_dict
  | SetExtraClaims py_dict

datatype ctx_value = CtxStr string | CtxDict py_dict | CtxExn exn

type_synonym template_context = "(string \<times> ctx_value) list"

record processor =
  processor_repr :: string
  lti_xblock_default_params :: "py_dict option"
  call :: "xblock \<Rightarrow> exn + py_dict option"

record runtime =
  get_lti_consumer :: "exn + unit"
  extract_real_user_data :: "exn + real_user_data"
  get_lti_1p1_user_id :: "exn + string"
  role :: "exn + string"
  lis_result_sourcedid :: "exn + string"
  builder_raises :: "consumer_call \<Rightarrow> exn option"
  context_id :: "exn + string"
  course_display_name_with_default :: "exn + string"
  course_display_org_with_default :: "exn + string"
  has_score :: bool
  outcome_service_url :: "exn + string"
  super_prefixed_custom_parameters_raises :: "exn option"
  urlparse_path :: "string \<Rightarrow> exn + string"
  get_parameter_processors :: "processor list"
  get_parameter_processors_raises :: "exn option"
  resource_link_id :: "exn + string"
  generate_launch_request :: "consumer_call list \<Rightarrow> string \<Rightarrow> exn + py_dict"
  lti_launch_url :: string
  track_event_raises :: "exn option"
  get_context_for_template :: "exn + template_context"
  error_page_before :: string
  error_page_after :: string
  launch_page_before :: "template_context \<Rightarrow> string"
  launch_page_after :: "template_context \<Rightarrow> string"
  serialize_parameters :: "py_dict \<Rightarrow> string"

record response =
  status :: nat
  body :: string
  content_type :: string

text \<open>
  Modelled from the spec: the templates \<^verbatim>\<open>templates/html/lti_launch_error.html\<close> and
  \<^verbatim>\<open>templates/html/lti_launch.html\<close> are not among the sources. The spec says that the
  error page has the error message in its body, and that the launch page is an
  auto-submitting form that embeds the serialized launch parameters. The text around the
  message and around the parameters, and the way the parameters are serialized, are left
  open: they are the last five fields of \<open>runtime\<close>.
\<close>

definition render_lti_launch_error :: "runtime \<Rightarrow> template_context \<Rightarrow> string" where
  "render_lti_launch_error rt context =
     error_page_before rt
       @ (case map_of context ''error_msg'' of
            Some (CtxExn e) \<Rightarrow> exn_str e
          | Some (CtxStr s) \<Rightarrow> s
          | _ \<Rightarrow> [])
       @ error_page_after rt"

definition render_lti_launch :: "runtime \<Rightarrow> template_context \<Rightarrow> string" where
  "render_lti_launch rt context =
     launch_page_before rt context
       @ (case map_of context ''lti_parameters'' of
            Some (CtxDict d) \<Rightarrow> serialize_parameters rt d
          | _ \<Rightarrow> [])
       @ launch_page_after rt context"

text \<open>What a run of the handler leaves behind besides its response.\<close>

record effects =
  consumer_calls :: "consumer_call list"
  log_records :: "(string \<times> string) list"
  tracked_events :: "(string \<times> (string \<times> string option) list) list"

definition no_effects :: effects where
  "no_effects = \<lparr>consumer_calls = [], log_records = [], tracked_events = []\<rparr>"

definition consumer_do :: "consumer_call \<Rightarrow> effects \<Rightarrow> effects" where
  "consumer_do c fx = fx\<lparr>consumer_calls := consumer_calls fx @ [c]\<rparr>"

definition log_record :: "string \<Rightarrow> string \<Rightarrow> effects \<Rightarrow> effects" where
  "log_record level msg fx = fx\<lparr>log_records := log_records fx @ [(level, msg)]\<rparr>"

text \<open>
  A step of the handler: from the effects so far to an exception or a value, and the
  effects after it. \<open>and_then\<close> is sequencing: an exception ends the sequence.
\<close>

type_synonym 'a action = "effects \<Rightarrow> (exn + 'a) \<times> effects"

definition returning :: "'a \<Rightarrow> 'a action" where
  "returning x fx = (Inr x, fx)"

definition calling :: "exn + 'a \<Rightarrow> 'a action" where
  "calling outcome fx = (outcome, fx)"

definition and_then :: "'a action \<Rightarrow> ('a \<Rightarrow> 'b action) \<Rightarrow> 'b action" where
  "and_then m f fx = (case m fx of (Inl e, fx') \<Rightarrow> (Inl e, fx') | (Inr x, fx') \<Rightarrow> f x fx')"

text \<open>A call on the launch builder: it is recorded, and then returns or raises.\<close>

definition builder_call :: "runtime \<Rightarrow> consumer_call \<Rightarrow> unit action" where
  "builder_call rt c fx =
     ((case builder_raises rt c of Some e \<Rightarrow> Inl e | None \<Rightarrow> Inr ()), consumer_do c fx)"

text \<open>\<^verbatim>\<open>track_event(name, event)\<close>: the event is recorded when the call returns.\<close>

definition track_event :: "runtime \<Rightarrow> string \<Rightarrow> (string \<times> string option) list \<Rightarrow> unit action" where
  "track_event rt name event fx =
     (case track_event_raises rt of
        Some e \<Rightarrow> (Inl e, fx)
      | None \<Rightarrow> (Inr (), fx\<lparr>tracked_events := tracked_events fx @ [(name, event)]\<rparr>))"

text \<open>Truth value of a string or \<^verbatim>\<open>None\<close>.\<close>

definition truthy :: "string option \<Rightarrow> bool" where
  "truthy v = (case v of None \<Rightarrow> False | Some s \<Rightarrow> s \<noteq> [])"

text \<open>\<^verbatim>\<open>x or {}\<close>, and \<^verbatim>\<open>getattr(processor, 'lti_xblock_default_params', {})\<close>.\<close>

definition or_empty :: "py_dict option \<Rightarrow> py_dict" where
  "or_empty v = (case v of None \<Rightarrow> [] | Some d \<Rightarrow> d)"

text \<open>
  The body of the \<^verbatim>\<open>try\<close> of lines 180-188, in order; the first call that raises
  decides the exception.
\<close>

definition identity :: "runtime \<Rightarrow> exn + (real_user_data \<times> string \<times> string \<times> string)" where
  "identity rt =
     (case extract_real_user_data rt of
        Inl e \<Rightarrow> Inl e
      | Inr rud \<Rightarrow>
     (case get_lti_1p1_user_id rt of
        Inl e \<Rightarrow> Inl e
      | Inr user_id \<Rightarrow>
     (case role rt of
        Inl e \<Rightarrow> Inl e
      | Inr r \<Rightarrow>
     (case lis_result_sourcedid rt of
        Inl e \<Rightarrow> Inl e
      | Inr result_sourcedid \<Rightarrow> Inr (rud, user_id, lti_1p1_role r, result_sourcedid)))))"

text \<open>
  Reading \<^verbatim>\<open>self.prefixed_custom_parameters\<close> (lines 132-157) in the handler: the base
  class's property may raise; then the line is logged; then \<^verbatim>\<open>urlparse\<close> may raise
  (it does on a malformed \<^verbatim>\<open>hub_url\<close>). When it returns a path, the property is
  \<open>prefixed_custom_parameters\<close> for that path.
\<close>

definition read_prefixed_custom_parameters :: "runtime \<Rightarrow> xblock \<Rightarrow> py_dict action" where
  "read_prefixed_custom_parameters rt self fx =
     (case super_prefixed_custom_parameters_raises rt of
        Some e \<Rightarrow> (Inl e, fx)
      | None \<Rightarrow>
          (case urlparse_path rt (hub_url self) of
             Inl e \<Rightarrow> (Inl e, log_record ''INFO'' (fetching_log_message self) fx)
           | Inr path \<Rightarrow>
               (Inr (prefixed_custom_parameters (\<lambda>url. path) self),
                log_record ''INFO'' (fetching_log_message self) fx)))"

text \<open>
  Lines 229-231, the body of the \<^verbatim>\<open>try\<close> inside the loop, and the loop of lines
  227-235. The handler of \<^verbatim>\<open>except Exception\<close> reads the global \<^verbatim>\<open>log\<close> before
  it can log anything.
\<close>

definition processor_body :: "runtime \<Rightarrow> xblock \<Rightarrow> processor \<Rightarrow> unit action" where
  "processor_body rt self p =
     and_then (builder_call rt (SetExtraClaims (or_empty (lti_xblock_default_params p)))) (\<lambda>_.
     and_then (calling (call p self)) (\<lambda>claims.
     builder_call rt (SetExtraClaims (or_empty claims))))"

fun apply_processors :: "runtime \<Rightarrow> xblock \<Rightarrow> processor list \<Rightarrow> unit action" where
  "apply_processors rt self [] fx = (Inr (), fx)"
| "apply_processors rt self (p # ps) fx =
     (case processor_body rt self p fx of
        (Inr _, fx1) \<Rightarrow> apply_processors rt self ps fx1
      | (Inl e, fx1) \<Rightarrow>
          (case load_global ''log'' of
             Inl e' \<Rightarrow> (Inl e', fx1)
           | Inr _ \<Rightarrow>
               apply_processors rt self ps
                 (log_record ''ERROR''
                    (''Error in XBlock LTI parameter processor '' @ [CHR 0x22] @ processor_repr p
                       @ [CHR 0x22]) fx1)))"

text \<open>
  Lines 196-225: the data handed to the launch builder before the processors run. The
  arguments of a call are evaluated, in order, before the call is made.
\<close>

definition set_launch_data ::
  "runtime \<Rightarrow> xblock \<Rightarrow> real_user_data \<Rightarrow> string \<Rightarrow> string \<Rightarrow> string \<Rightarrow> unit action" where
  "set_launch_data rt self rud user_id lti_role result_sourcedid =
     and_then (builder_call rt
                 (SetUserData user_id lti_role result_sourcedid
                    (if truthy (user_username rud) then user_username rud else None) None None)) (\<lambda>_.
     and_then (calling (context_id rt)) (\<lambda>cid.
     and_then (calling (course_display_name_with_default rt)) (\<lambda>title.
     and_then (calling (course_display_org_with_default rt)) (\<lambda>org.
     and_then (builder_call rt (SetContextData cid title org)) (\<lambda>_.
     and_then (if has_score rt
               then and_then (calling (outcome_service_url rt)) (\<lambda>url.
                      builder_call rt (SetOutcomeServiceUrl url))
               else returning ()) (\<lambda>_.
     and_then (if truthy (user_language rud)
               then builder_call rt (SetLaunchPresentationLocale (the (user_language rud)))
               else returning ()) (\<lambda>_.
     and_then (read_prefixed_custom_parameters rt self) (\<lambda>params.
     builder_call rt (SetCustomParameters params)))))))))"

text \<open>
  Lines 237-251: the launch parameters, the tracking event and the rendered form.
  \<^verbatim>\<open>Response(template, content_type='text/html')\<close> has status 200.
\<close>

definition launch_form :: "runtime \<Rightarrow> response action" where
  "launch_form rt =
     and_then (calling (resource_link_id rt)) (\<lambda>link.
     and_then (\<lambda>fx. calling (generate_launch_request rt (consumer_calls fx) link) fx) (\<lambda>lti_parameters.
     and_then (track_event rt ''xblock.launch_request''
                 [(''lti_version'', map_of lti_parameters ''lti_version''),
                  (''user_roles'', map_of lti_parameters ''roles''),
                  (''launch_url'', Some (lti_launch_url rt))]) (\<lambda>_.
     and_then (calling (get_context_for_template rt)) (\<lambda>context.
     returning
       \<lparr>status = 200,
        body = render_lti_launch rt
                 (AList.update ''lti_parameters'' (CtxDict lti_parameters) context),
        content_type = ''text/html''\<rparr>))))"

text \<open>Lines 190-194: the answer to \<^verbatim>\<open>LtiError\<close>; any other exception is raised again.\<close>

definition except_LtiError :: "runtime \<Rightarrow> exn \<Rightarrow> response action" where
  "except_LtiError rt e =
     (case e of
        LtiError msg \<Rightarrow>
          returning
            \<lparr>status = 400,
             body = render_lti_launch_error rt [(''error_msg'', CtxExn e)],
             content_type = ''text/html''\<rparr>
      | _ \<Rightarrow> calling (Inl e))"

text \<open>
  The handler: \<open>Inl\<close> is an exception that leaves it, \<open>Inr\<close> the response it returns.
  Line 175 comes first and is outside every \<^verbatim>\<open>try\<close>.
\<close>

definition lti_launch_handler :: "runtime \<Rightarrow> xblock \<Rightarrow> (exn + response) \<times> effects" where
  "lti_launch_handler rt self =
     and_then (calling (get_lti_consumer rt)) (\<lambda>_.
       case identity rt of
         Inl e \<Rightarrow> except_LtiError rt e
       | Inr (rud, user_id, lti_role, result_sourcedid) \<Rightarrow>
           and_then (set_launch_data rt self rud user_id lti_role result_sourcedid) (\<lambda>_.
           and_then (apply_processors rt self (get_parameter_processors rt)) (\<lambda>_.
           and_then (calling (case get_parameter_processors_raises rt of
                                Some e \<Rightarrow> Inl e | None \<Rightarrow> Inr ())) (\<lambda>_.
           launch_form rt))))
       no_effects"

text \<open>
  A step that leaves the calls already made on the launch builder in place and can only
  add to them.
\<close>

definition only_appends :: "'a action \<Rightarrow> bool" where
  "only_appends m = (\<forall>fx. \<exists>more. consumer_calls (snd (m fx)) = consumer_calls fx @ more)"

subsection \<open>The option list of the interface selector, as written\<close>

text \<open>
  The \<^verbatim>\<open>values=[...]\<close> argument of lines 40-48, token by token: a dictionary display
  is one token, and line ends inside the brackets are not tokens. Python reads a list
  display as \<^verbatim>\<open>"[" [item ("," item)* [","]] "]"\<close>.
\<close>

datatype token = LBRACKET | RBRACKET | COMMA | DICT py_dict

datatype parse_error = SyntaxError nat

definition urlbasepath_values_tokens :: "token list" where
  "urlbasepath_values_tokens =
     [LBRACKET,
      DICT [(''display_name'', ''Jupyter Notebook''), (''value'', ''tree'')], COMMA,
      DICT [(''display_name'', ''JupyterLab''), (''value'', ''lab/tree'')], COMMA,
      DICT [(''display_name'', ''RStudio''), (''value'', ''rstudio'')], COMMA,
      DICT [(''display_name'', ''Terminal''), (''value'', ''terminals/1'')],
      DICT [(''display_name'', ''Desktop''), (''value'', ''Desktop'')],
      DICT [(''display_name'', ''OpenRefine''), (''value'', ''openrefine'')],
      DICT [(''display_name'', ''VS Code''), (''value'', ''code-server'')],
      RBRACKET]"

text \<open>
  \<open>parse_items after_item pos ts acc\<close>: \<open>after_item\<close> tells whether the last token
  read was an item; \<open>pos\<close> is the index of the next token.
\<close>

fun parse_items :: "bool \<Rightarrow> nat \<Rightarrow> token list \<Rightarrow> py_dict list \<Rightarrow> parse_error + py_dict list" where
  "parse_items after_item pos [RBRACKET] acc = Inr (rev acc)"
| "parse_items False pos (DICT d # ts) acc = parse_items True (Suc pos) ts (d # acc)"
| "parse_items True pos (COMMA # ts) acc = parse_items False (Suc pos) ts acc"
| "parse_items after_item pos ts acc = Inl (SyntaxError pos)"

definition parse_list_display :: "token list \<Rightarrow> parse_error + py_dict list" where
  "parse_list_display ts =
     (case ts of
        LBRACKET # rest \<Rightarrow> parse_items False 1 rest []
      | _ \<Rightarrow> Inl (SyntaxError 0))"

text \<open>The same tokens with a comma after each of the first six entries.\<close>

definition urlbasepath_values_with_commas :: "token list" where
  "urlbasepath_values_with_commas =
     [LBRACKET,
      DICT [(''display_name'', ''Jupyter Notebook''), (''value'', ''tree'')], COMMA,
      DICT [(''display_name'', ''JupyterLab''), (''value'', ''lab/tree'')], COMMA,
      DICT [(''display_name'', ''RStudio''), (''value'', ''rstudio'')], COMMA,
      DICT [(''display_name'', ''Terminal''), (''value'', ''terminals/1'')], COMMA,
      DICT [(''display_name'', ''Desktop''), (''value'', ''Desktop'')], COMMA,
      DICT [(''display_name'', ''OpenRefine''), (''value'', ''openrefine'')], COMMA,
      DICT [(''display_name'', ''VS Code''), (''value'', ''code-server'')],
      RBRACKET]"

subsection \<open>Reading a query string back\<close>









subsection \<open>Sample data\<close>

text \<open>A block with the declared defaults, and a hub served under a path prefix.\<close>

definition sample_block :: xblock where
  "sample_block =
     \<lparr>display_name = ''JupyterHub'',
      urlbasepath = ''lab/tree'',
      nb_git_repo = ''https://github.com/calculquebec/jupytermc-xblock.git'',
      nb_git_branch = ''main'',
      nb_git_file = ''static/notebooks/hello.ipynb'',
      lti_id = ''jupyterhub'',
      hub_url = ''https://hub.example.org/jupyter/'',
      super_launch_target = ''iframe'',
      super_prefixed_custom_parameters = [(''custom_a'', ''1''), (''next'', ''elsewhere'')]\<rparr>"

text \<open>A stand-in for the path component: what follows the host of an absolute URL.\<close>

definition sample_urlparse_path :: "string \<Rightarrow> string" where
  "sample_urlparse_path url =
     dropWhile (\<lambda>c. c \<noteq> CHR ''/'') (drop 8 url)"

text \<open>
  The same with the check \<^verbatim>\<open>urlsplit\<close> makes on the host part: one square bracket
  without the other raises \<^verbatim>\<open>ValueError("Invalid IPv6 URL")\<close>.
\<close>

definition sample_urlparse :: "string \<Rightarrow> exn + string" where
  "sample_urlparse url =
     (let netloc = takeWhile (\<lambda>c. c \<noteq> CHR ''/'') (drop 8 url)
      in if (CHR ''['' \<in> set netloc \<and> CHR '']'' \<notin> set netloc)
            \<or> (CHR '']'' \<in> set netloc \<and> CHR ''['' \<notin> set netloc)
         then Inl (ValueError ''Invalid IPv6 URL'')
         else Inr (sample_urlparse_path url))"

text \<open>A serialization of the launch parameters as hidden form fields.\<close>

definition sample_serialize :: "py_dict \<Rightarrow> string" where
  "sample_serialize d =
     concat (map (\<lambda>(k, v). ''<input type=hidden name='' @ k @ '' value='' @ v @ ''>'') d)"

definition sample_generate :: "consumer_call list \<Rightarrow> string \<Rightarrow> exn + py_dict" where
  "sample_generate calls link =
     Inr ([(''lti_version'', ''LTI-1p0''), (''resource_link_id'', link)]
          @ concat (map (\<lambda>c. case c of
                       SetUserData u r s n e f \<Rightarrow> [(''user_id'', u), (''roles'', r)]
                     | SetExtraClaims d \<Rightarrow> d
                     | _ \<Rightarrow> []) calls))"

definition sample_runtime :: runtime where
  "sample_runtime =
     \<lparr>get_lti_consumer = Inr (),
      extract_real_user_data = Inr \<lparr>user_username = Some ''alice'', user_language = Some ''fr''\<rparr>,
      get_lti_1p1_user_id = Inr ''u-1'',
      role = Inr ''staff'',
      lis_result_sourcedid = Inr ''course:link:u-1'',
      builder_raises = (\<lambda>c. None),
      context_id = Inr ''course-v1:X+Y+Z'',
      course_display_name_with_default = Inr ''Course'',
      course_display_org_with_default = Inr ''Org'',
      has_score = False,
      outcome_service_url = Inr ''https://lms.example.org/outcome'',
      super_prefixed_custom_parameters_raises = None,
      urlparse_path = sample_urlparse,
      get_parameter_processors = [],
      get_parameter_processors_raises = None,
      resource_link_id = Inr ''link'',
      generate_launch_request = sample_generate,
      lti_launch_url = ''https://hub.example.org/jupyter/hub/lti/launch'',
      track_event_raises = None,
      get_context_for_template = Inr [(''launch_url'', CtxStr ''https://hub.example.org/jupyter/hub/lti/launch'')],
      error_page_before = ''<p>'',
      error_page_after = ''</p>'',
      launch_page_before = (\<lambda>context. ''<form>''),
      launch_page_after = (\<lambda>context. ''</form>''),
      serialize_parameters = sample_serialize\<rparr>"

text \<open>Two processors: one that returns a claim, one that raises.\<close>

definition good_processor :: processor where
  "good_processor =
     \<lparr>processor_repr = ''good'',
      lti_xblock_default_params = Some [(''custom_team'', ''none'')],
      call = (\<lambda>self. Inr (Some [(''custom_team'', ''blue'')]))\<rparr>"

definition raising_processor :: processor where
  "raising_processor =
     \<lparr>processor_repr = ''raising'',
      lti_xblock_default_params = None,
      call = (\<lambda>self. Inl (OtherError ''boom''))\<rparr>"

section \<open>Properties\<close>

subsection \<open>Dictionaries and paths\<close>

lemma dict_setitem_map_of:
  "map_of (dict_setitem d k v) = (map_of d)(k \<mapsto> v)"
  by (simp add: dict_setitem_def update_conv')

lemma takeWhile_rev_snoc:
  "c \<in> set xs \<Longrightarrow>
     takeWhile (\<lambda>x. x \<noteq> c) (rev xs @ [y]) = takeWhile (\<lambda>x. x \<noteq> c) (rev xs)"
  by (rule takeWhile_append1[of c]) auto

lemma rfind_from_eq:
  "rfind_from s c i best =
     (if c \<in> set s then i + int (length s) - 1 - int (length (takeWhile (\<lambda>x. x \<noteq> c) (rev s)))
      else best)"
proof (induction s arbitrary: i best)
  case Nil
  then show ?case by simp
next
  case (Cons x xs)
  show ?case
  proof (cases "c \<in> set xs")
    case True
    then show ?thesis
      by (simp add: Cons.IH takeWhile_rev_snoc del: takeWhile_append)
  next
    case False
    show ?thesis
    proof (cases "x = c")
      case True
      have "takeWhile (\<lambda>x. x \<noteq> c) (rev xs @ [c]) = rev xs"
        using False by (auto simp: takeWhile_tail)
      then show ?thesis
        unfolding True using False by (simp add: Cons.IH del: takeWhile_append)
    next
      case neq: False
      with False show ?thesis by (simp add: Cons.IH)
    qed
  qed
qed

lemma drop_length_takeWhile_rev:
  "drop (length p - length (takeWhile P (rev p))) p = rev (takeWhile P (rev p))"
proof -
  have "rev p = takeWhile P (rev p) @ dropWhile P (rev p)" by simp
  then have "p = rev (dropWhile P (rev p)) @ rev (takeWhile P (rev p))"
    by (metis rev_append rev_rev_ident)
  moreover have "length (rev (dropWhile P (rev p))) = length p - length (takeWhile P (rev p))"
    by (metis length_rev length_append add_diff_cancel_left' takeWhile_dropWhile_id)
  ultimately show ?thesis
    by (metis append_eq_conv_conj)
qed

lemma basename_after_last_slash:
  "basename p = rev (takeWhile (\<lambda>x. x \<noteq> CHR ''/'') (rev p))"
proof (cases "CHR ''/'' \<in> set p")
  case True
  let ?t = "takeWhile (\<lambda>x. x \<noteq> CHR ''/'') (rev p)"
  have "length ?t \<le> length p"
    by (metis length_rev length_takeWhile_le)
  then have "nat (rfind p (CHR ''/'') + 1) = length p - length ?t"
    using True by (simp add: rfind_def rfind_from_eq)
  then show ?thesis
    by (simp add: basename_def drop_length_takeWhile_rev)
next
  case False
  then have tw: "takeWhile (\<lambda>x. x \<noteq> CHR ''/'') (rev p) = rev p"
    by auto
  show ?thesis
    unfolding tw using False by (simp add: basename_def rfind_def rfind_from_eq)
qed

lemma basename_no_slash: "CHR ''/'' \<notin> set (basename p)"
  by (auto simp: basename_after_last_slash dest: set_takeWhileD)

lemma basename_suffix:
  "\<exists>d. p = d @ basename p \<and> (d = [] \<or> last d = CHR ''/'')"
proof -
  let ?t = "takeWhile (\<lambda>x. x \<noteq> CHR ''/'') (rev p)"
  let ?d = "dropWhile (\<lambda>x. x \<noteq> CHR ''/'') (rev p)"
  have "rev p = ?t @ ?d" by simp
  then have p: "p = rev ?d @ basename p"
    by (metis basename_after_last_slash rev_append rev_rev_ident)
  have "?d = [] \<or> hd ?d = CHR ''/''"
    using hd_dropWhile[of "\<lambda>x. x \<noteq> CHR ''/''" "rev p"] by auto
  then have "rev ?d = [] \<or> last (rev ?d) = CHR ''/''"
    by (auto simp: last_rev)
  with p show ?thesis by blast
qed

lemma urlpath_cases:
  "urlpath self =
     (if urlbasepath self \<in> set no_document_interfaces then urlbasepath self
      else urlbasepath self @ ''/'' @ basename (nb_git_repo self) @ ''/'' @ nb_git_file self)"
  by (simp add: urlpath_def next_query_params_def dict_get_def dict_setitem_def Let_def)

subsection \<open>Escaping and reading back\<close>







lemma char_of_hex_pair: "char_of (16 * (of_char c div 16) + of_char c mod 16 :: nat) = c"
  by simp














subsection \<open>Steps and sequencing\<close>

lemma and_then_returns: "m fx = (Inr x, fx') \<Longrightarrow> and_then m f fx = f x fx'"
  by (simp add: and_then_def)

lemma and_then_raises: "m fx = (Inl e, fx') \<Longrightarrow> and_then m f fx = (Inl e, fx')"
  by (simp add: and_then_def)

lemma only_appends_returning: "only_appends (returning x)"
  by (simp add: only_appends_def returning_def)

lemma only_appends_calling: "only_appends (calling r)"
  by (simp add: only_appends_def calling_def)

lemma only_appends_builder_call: "only_appends (builder_call rt c)"
  by (simp add: only_appends_def builder_call_def consumer_do_def)

lemma only_appends_track_event: "only_appends (track_event rt name event)"
  by (simp add: only_appends_def track_event_def split: option.splits)

lemma only_appends_read_prefixed: "only_appends (read_prefixed_custom_parameters rt self)"
  by (simp add: only_appends_def read_prefixed_custom_parameters_def log_record_def
        split: option.splits sum.splits)

lemma only_appends_and_then:
  assumes "only_appends m" and "\<And>x. only_appends (f x)"
  shows "only_appends (and_then m f)"
  unfolding only_appends_def
proof
  fix fx
  obtain r fx' where m: "m fx = (r, fx')" by (cases "m fx")
  obtain m1 where m1: "consumer_calls fx' = consumer_calls fx @ m1"
    using assms(1) m unfolding only_appends_def by (metis snd_conv)
  show "\<exists>more. consumer_calls (snd (and_then m f fx)) = consumer_calls fx @ more"
  proof (cases r)
    case (Inl e)
    with m m1 show ?thesis by (simp add: and_then_def)
  next
    case (Inr x)
    obtain m2 where "consumer_calls (snd (f x fx')) = consumer_calls fx' @ m2"
      using assms(2)[of x] unfolding only_appends_def by blast
    with Inr m m1 show ?thesis by (simp add: and_then_def)
  qed
qed

lemma only_appends_if:
  "only_appends m1 \<Longrightarrow> only_appends m2 \<Longrightarrow> only_appends (if b then m1 else m2)"
  by simp

subsection \<open>The processor loop\<close>

lemma log_unbound: "load_global ''log'' = Inl (NameError ''log'')"
  by (simp add: load_global_def module_globals_def)

lemma logger_bound: "load_global ''logger'' = Inr ()"
  by (simp add: load_global_def module_globals_def)

lemma processor_body_returns:
  "\<forall>c. builder_raises rt c = None \<Longrightarrow> call p self = Inr claims \<Longrightarrow>
     processor_body rt self p fx =
       (Inr (), consumer_do (SetExtraClaims (or_empty claims))
                  (consumer_do (SetExtraClaims (or_empty (lti_xblock_default_params p))) fx))"
  by (simp add: processor_body_def and_then_def builder_call_def calling_def)

lemma processor_body_raises:
  "call p self = Inl e \<Longrightarrow>
     \<exists>e' fx'. processor_body rt self p fx = (Inl e', fx') \<and> log_records fx' = log_records fx"
  by (simp add: processor_body_def and_then_def builder_call_def calling_def consumer_do_def
        split: option.splits)

lemma only_appends_processor_body: "only_appends (processor_body rt self p)"
  unfolding processor_body_def
  by (intro only_appends_and_then only_appends_builder_call only_appends_calling)

lemma apply_processors_all_return:
  "\<forall>c. builder_raises rt c = None \<Longrightarrow> \<forall>p\<in>set ps. \<not> isl (call p self) \<Longrightarrow>
     \<exists>fx'. apply_processors rt self ps fx = (Inr (), fx') \<and> log_records fx' = log_records fx"
proof (induction ps arbitrary: fx)
  case Nil
  then show ?case by simp
next
  case (Cons p ps)
  then obtain claims where c: "call p self = Inr claims"
    by (cases "call p self") auto
  let ?fx1 = "consumer_do (SetExtraClaims (or_empty claims))
                  (consumer_do (SetExtraClaims (or_empty (lti_xblock_default_params p))) fx)"
  obtain fx' where "apply_processors rt self ps ?fx1 = (Inr (), fx')"
    and "log_records fx' = log_records ?fx1"
    using Cons.IH[of ?fx1] Cons.prems by auto
  then show ?case
    using processor_body_returns[OF Cons.prems(1) c, of fx]
    by (simp add: consumer_do_def)
qed

lemma apply_processors_some_raises:
  "\<forall>c. builder_raises rt c = None \<Longrightarrow> \<exists>p\<in>set ps. isl (call p self) \<Longrightarrow>
     \<exists>fx'. apply_processors rt self ps fx = (Inl (NameError ''log''), fx') \<and>
           log_records fx' = log_records fx"
proof (induction ps arbitrary: fx)
  case Nil
  then show ?case by simp
next
  case (Cons p ps)
  show ?case
  proof (cases "call p self")
    case (Inl e)
    obtain e' fx' where "processor_body rt self p fx = (Inl e', fx')"
      and "log_records fx' = log_records fx"
      using processor_body_raises[OF Inl] by blast
    then show ?thesis by (simp add: log_unbound)
  next
    case (Inr claims)
    let ?fx1 = "consumer_do (SetExtraClaims (or_empty claims))
                  (consumer_do (SetExtraClaims (or_empty (lti_xblock_default_params p))) fx)"
    from Inr Cons.prems have "\<exists>q\<in>set ps. isl (call q self)" by auto
    from Cons.IH[OF Cons.prems(1) this, of ?fx1]
    obtain fx' where "apply_processors rt self ps ?fx1 = (Inl (NameError ''log''), fx')"
      and "log_records fx' = log_records ?fx1" by blast
    then show ?thesis
      using processor_body_returns[OF Cons.prems(1) Inr, of fx]
      by (simp add: consumer_do_def)
  qed
qed

lemma only_appends_apply_processors: "only_appends (apply_processors rt self ps)"
  unfolding only_appends_def
proof (induction ps)
  case Nil
  then show ?case by simp
next
  case (Cons p ps)
  show ?case
  proof
    fix fx
    obtain r fx1 where b: "processor_body rt self p fx = (r, fx1)"
      by (cases "processor_body rt self p fx")
    obtain m1 where m1: "consumer_calls fx1 = consumer_calls fx @ m1"
      using only_appends_processor_body[of rt self p] b unfolding only_appends_def
      by (metis snd_conv)
    show "\<exists>more. consumer_calls (snd (apply_processors rt self (p # ps) fx))
            = consumer_calls fx @ more"
    proof (cases r)
      case (Inl e)
      with b m1 show ?thesis by (simp add: log_unbound)
    next
      case (Inr u)
      obtain m2 where "consumer_calls (snd (apply_processors rt self ps fx1))
          = consumer_calls fx1 @ m2"
        using Cons.IH by blast
      with Inr b m1 show ?thesis by simp
    qed
  qed
qed


subsection \<open>The handler\<close>

lemma set_launch_data_calls:
  "\<exists>more. consumer_calls (snd (set_launch_data rt self rud user_id lti_role sid fx)) =
     consumer_calls fx @
       SetUserData user_id lti_role sid
         (if truthy (user_username rud) then user_username rud else None) None None # more"
proof -
  let ?c = "SetUserData user_id lti_role sid
         (if truthy (user_username rud) then user_username rud else None) None None"
  let ?rest = "(\<lambda>_::unit.
     and_then (calling (context_id rt)) (\<lambda>cid.
     and_then (calling (course_display_name_with_default rt)) (\<lambda>title.
     and_then (calling (course_display_org_with_default rt)) (\<lambda>org.
     and_then (builder_call rt (SetContextData cid title org)) (\<lambda>_.
     and_then (if has_score rt
               then and_then (calling (outcome_service_url rt)) (\<lambda>url.
                      builder_call rt (SetOutcomeServiceUrl url))
               else returning ()) (\<lambda>_.
     and_then (if truthy (user_language rud)
               then builder_call rt (SetLaunchPresentationLocale (the (user_language rud)))
               else returning ()) (\<lambda>_.
     and_then (read_prefixed_custom_parameters rt self) (\<lambda>params.
     builder_call rt (SetCustomParameters params)))))))))"
  have rest: "only_appends (?rest u)"
    by (intro only_appends_and_then only_appends_builder_call only_appends_calling
          only_appends_if only_appends_returning only_appends_read_prefixed)
  have eq: "set_launch_data rt self rud user_id lti_role sid = and_then (builder_call rt ?c) ?rest"
    by (simp add: set_launch_data_def)
  obtain r where b: "builder_call rt ?c fx = (r, consumer_do ?c fx)"
    by (simp add: builder_call_def)
  show ?thesis
  proof (cases r)
    case (Inl e)
    with b show ?thesis
      unfolding eq by (simp add: and_then_def consumer_do_def)
  next
    case (Inr u)
    obtain more where "consumer_calls (snd (?rest u (consumer_do ?c fx)))
        = consumer_calls (consumer_do ?c fx) @ more"
      using rest unfolding only_appends_def by blast
    with Inr b show ?thesis
      unfolding eq by (simp add: and_then_def consumer_do_def)
  qed
qed

lemma set_launch_data_returns:
  assumes "\<forall>c. builder_raises rt c = None"
    and "context_id rt = Inr cid"
    and "course_display_name_with_default rt = Inr title"
    and "course_display_org_with_default rt = Inr org"
    and "has_score rt \<longrightarrow> \<not> isl (outcome_service_url rt)"
    and "super_prefixed_custom_parameters_raises rt = None"
    and "urlparse_path rt (hub_url self) = Inr path"
  shows "\<exists>fx'. set_launch_data rt self rud user_id lti_role sid fx = (Inr (), fx') \<and>
           log_records fx' = log_records fx @ [(''INFO'', fetching_log_message self)]"
proof (cases "has_score rt")
  case True
  with assms(5) obtain url where "outcome_service_url rt = Inr url"
    by (cases "outcome_service_url rt") auto
  with True assms(1-4,6,7) show ?thesis
    by (simp add: set_launch_data_def and_then_def calling_def returning_def builder_call_def
          read_prefixed_custom_parameters_def consumer_do_def log_record_def)
next
  case False
  with assms(1-4,6,7) show ?thesis
    by (simp add: set_launch_data_def and_then_def calling_def returning_def builder_call_def
          read_prefixed_custom_parameters_def consumer_do_def log_record_def)
qed

lemma only_appends_launch_form: "only_appends (launch_form rt)"
proof -
  have "only_appends (\<lambda>fx. calling (generate_launch_request rt (consumer_calls fx) link) fx)" for link
    by (simp add: only_appends_def calling_def)
  then show ?thesis
    unfolding launch_form_def
    by (intro only_appends_and_then only_appends_calling only_appends_track_event
          only_appends_returning)
qed

lemma launch_form_returns:
  assumes "resource_link_id rt = Inr link"
    and "generate_launch_request rt (consumer_calls fx) link = Inr params"
    and "track_event_raises rt = None"
    and "get_context_for_template rt = Inr ctx"
  shows "\<exists>fx'. launch_form rt fx =
           (Inr \<lparr>status = 200,
                 body = launch_page_before rt
                          (AList.update ''lti_parameters'' (CtxDict params) ctx)
                        @ serialize_parameters rt params
                        @ launch_page_after rt
                            (AList.update ''lti_parameters'' (CtxDict params) ctx),
                 content_type = ''text/html''\<rparr>, fx') \<and>
           consumer_calls fx' = consumer_calls fx"
  using assms
  by (simp add: launch_form_def and_then_def calling_def returning_def track_event_def
        render_lti_launch_def update_conv')

lemma handler_no_consumer:
  "get_lti_consumer rt = Inl e \<Longrightarrow> lti_launch_handler rt self = (Inl e, no_effects)"
  by (simp add: lti_launch_handler_def and_then_def calling_def)

lemma handler_lti_error:
  "get_lti_consumer rt = Inr () \<Longrightarrow> identity rt = Inl (LtiError msg) \<Longrightarrow>
     lti_launch_handler rt self =
       (Inr \<lparr>status = 400,
             body = error_page_before rt @ msg @ error_page_after rt,
             content_type = ''text/html''\<rparr>,
        no_effects)"
  by (simp add: lti_launch_handler_def and_then_def calling_def except_LtiError_def
        returning_def render_lti_launch_error_def exn_str_def)

lemma handler_other_error:
  "get_lti_consumer rt = Inr () \<Longrightarrow> identity rt = Inl e \<Longrightarrow> \<forall>msg. e \<noteq> LtiError msg \<Longrightarrow>
     lti_launch_handler rt self = (Inl e, no_effects)"
  by (cases e)
     (simp_all add: lti_launch_handler_def and_then_def calling_def except_LtiError_def)

lemma handler_after_identity:
  assumes "get_lti_consumer rt = Inr ()"
    and "identity rt = Inr (rud, user_id, lti_role, sid)"
  shows "lti_launch_handler rt self =
           and_then (set_launch_data rt self rud user_id lti_role sid) (\<lambda>_.
           and_then (apply_processors rt self (get_parameter_processors rt)) (\<lambda>_.
           and_then (calling (case get_parameter_processors_raises rt of
                                Some e \<Rightarrow> Inl e | None \<Rightarrow> Inr ())) (\<lambda>_.
           launch_form rt))) no_effects"
  using assms by (simp add: lti_launch_handler_def and_then_def[of "calling (Inr ())"] calling_def)

lemma handler_success:
  assumes "get_lti_consumer rt = Inr ()"
    and "identity rt = Inr x"
    and "\<forall>c. builder_raises rt c = None"
    and "context_id rt = Inr cid"
    and "course_display_name_with_default rt = Inr title"
    and "course_display_org_with_default rt = Inr org"
    and "has_score rt \<longrightarrow> \<not> isl (outcome_service_url rt)"
    and "super_prefixed_custom_parameters_raises rt = None"
    and "urlparse_path rt (hub_url self) = Inr path"
    and "\<forall>p\<in>set (get_parameter_processors rt). \<not> isl (call p self)"
    and "get_parameter_processors_raises rt = None"
    and "resource_link_id rt = Inr link"
    and "\<forall>calls. \<not> isl (generate_launch_request rt calls link)"
    and "track_event_raises rt = None"
    and "get_context_for_template rt = Inr ctx"
  shows "\<exists>params.
           generate_launch_request rt (consumer_calls (snd (lti_launch_handler rt self))) link
             = Inr params \<and>
           fst (lti_launch_handler rt self) =
             Inr \<lparr>status = 200,
                  body = launch_page_before rt
                           (AList.update ''lti_parameters'' (CtxDict params) ctx)
                         @ serialize_parameters rt params
                         @ launch_page_after rt
                             (AList.update ''lti_parameters'' (CtxDict params) ctx),
                  content_type = ''text/html''\<rparr>"
proof -
  obtain rud user_id lti_role sid where x: "x = (rud, user_id, lti_role, sid)"
    by (cases x) auto
  obtain fx5 where s: "set_launch_data rt self rud user_id lti_role sid no_effects = (Inr (), fx5)"
    using set_launch_data_returns[OF assms(3-9)] by blast
  obtain fx6 where a: "apply_processors rt self (get_parameter_processors rt) fx5 = (Inr (), fx6)"
    using apply_processors_all_return[OF assms(3) assms(10)] by blast
  obtain params where g: "generate_launch_request rt (consumer_calls fx6) link = Inr params"
    using assms(13)[rule_format, of "consumer_calls fx6"]
    by (cases "generate_launch_request rt (consumer_calls fx6) link") auto
  obtain fx7 where l: "launch_form rt fx6 =
           (Inr \<lparr>status = 200,
                 body = launch_page_before rt
                          (AList.update ''lti_parameters'' (CtxDict params) ctx)
                        @ serialize_parameters rt params
                        @ launch_page_after rt
                            (AList.update ''lti_parameters'' (CtxDict params) ctx),
                 content_type = ''text/html''\<rparr>, fx7)"
    and c: "consumer_calls fx7 = consumer_calls fx6"
    using launch_form_returns[OF assms(12) g assms(14,15)] by blast
  have "lti_launch_handler rt self =
           (Inr \<lparr>status = 200,
                 body = launch_page_before rt
                          (AList.update ''lti_parameters'' (CtxDict params) ctx)
                        @ serialize_parameters rt params
                        @ launch_page_after rt
                            (AList.update ''lti_parameters'' (CtxDict params) ctx),
                 content_type = ''text/html''\<rparr>, fx7)"
    unfolding handler_after_identity[OF assms(1) assms(2)[unfolded x]]
    using s a l by (simp add: and_then_def assms(11) calling_def)
  with g c show ?thesis by simp
qed

lemma handler_processor_raises:
  assumes "get_lti_consumer rt = Inr ()"
    and "identity rt = Inr x"
    and "\<forall>c. builder_raises rt c = None"
    and "context_id rt = Inr cid"
    and "course_display_name_with_default rt = Inr title"
    and "course_display_org_with_default rt = Inr org"
    and "has_score rt \<longrightarrow> \<not> isl (outcome_service_url rt)"
    and "super_prefixed_custom_parameters_raises rt = None"
    and "urlparse_path rt (hub_url self) = Inr path"
    and "\<exists>p\<in>set (get_parameter_processors rt). isl (call p self)"
  shows "fst (lti_launch_handler rt self) = Inl (NameError ''log'') \<and>
         log_records (snd (lti_launch_handler rt self)) = [(''INFO'', fetching_log_message self)]"
proof -
  obtain rud user_id lti_role sid where x: "x = (rud, user_id, lti_role, sid)"
    by (cases x) auto
  obtain fx5 where s: "set_launch_data rt self rud user_id lti_role sid no_effects = (Inr (), fx5)"
    and l5: "log_records fx5 = log_records no_effects @ [(''INFO'', fetching_log_message self)]"
    using set_launch_data_returns[OF assms(3-9)] by blast
  obtain fx6 where a: "apply_processors rt self (get_parameter_processors rt) fx5
      = (Inl (NameError ''log''), fx6)" and l6: "log_records fx6 = log_records fx5"
    using apply_processors_some_raises[OF assms(3) assms(10)] by blast
  have "lti_launch_handler rt self = (Inl (NameError ''log''), fx6)"
    unfolding handler_after_identity[OF assms(1) assms(2)[unfolded x]]
    using s a by (simp add: and_then_def)
  with l5 l6 show ?thesis by (simp add: no_effects_def)
qed

lemma handler_urlparse_raises:
  assumes "get_lti_consumer rt = Inr ()"
    and "identity rt = Inr x"
    and "\<forall>c. builder_raises rt c = None"
    and "context_id rt = Inr cid"
    and "course_display_name_with_default rt = Inr title"
    and "course_display_org_with_default rt = Inr org"
    and "has_score rt \<longrightarrow> \<not> isl (outcome_service_url rt)"
    and "super_prefixed_custom_parameters_raises rt = None"
    and "urlparse_path rt (hub_url self) = Inl e"
  shows "fst (lti_launch_handler rt self) = Inl e"
proof -
  obtain rud user_id lti_role sid where x: "x = (rud, user_id, lti_role, sid)"
    by (cases x) auto
  have "\<exists>fx'. set_launch_data rt self rud user_id lti_role sid no_effects = (Inl e, fx')"
  proof (cases "has_score rt")
    case True
    with assms(7) obtain url where "outcome_service_url rt = Inr url"
      by (cases "outcome_service_url rt") auto
    with True assms(3-6,8,9) show ?thesis
      by (simp add: set_launch_data_def and_then_def calling_def returning_def builder_call_def
            read_prefixed_custom_parameters_def)
  next
    case False
    with assms(3-6,8,9) show ?thesis
      by (simp add: set_launch_data_def and_then_def calling_def returning_def builder_call_def
            read_prefixed_custom_parameters_def)
  qed
  then obtain fx' where s: "set_launch_data rt self rud user_id lti_role sid no_effects = (Inl e, fx')"
    by blast
  show ?thesis
    unfolding handler_after_identity[OF assms(1) assms(2)[unfolded x]]
    using s by (simp add: and_then_def)
qed

lemma identity_role:
  "identity rt = Inr (rud, user_id, lti_role, sid) \<Longrightarrow> role rt = Inr r \<Longrightarrow> lti_role = lti_1p1_role r"
  by (auto simp: identity_def split: sum.splits)

lemma handler_calls:
  assumes "get_lti_consumer rt = Inr ()"
    and "identity rt = Inr (rud, user_id, lti_role, sid)"
  shows "\<exists>more. consumer_calls (snd (lti_launch_handler rt self)) =
           SetUserData user_id lti_role sid
             (if truthy (user_username rud) then user_username rud else None) None None # more"
proof -
  let ?tail = "(\<lambda>_::unit.
           and_then (apply_processors rt self (get_parameter_processors rt)) (\<lambda>_.
           and_then (calling (case get_parameter_processors_raises rt of
                                Some e \<Rightarrow> Inl e | None \<Rightarrow> Inr ())) (\<lambda>_.
           launch_form rt)))"
  have tail: "only_appends (?tail u)"
    by (intro only_appends_and_then only_appends_apply_processors only_appends_calling
          only_appends_launch_form)
  obtain r fx5 where s: "set_launch_data rt self rud user_id lti_role sid no_effects = (r, fx5)"
    by (cases "set_launch_data rt self rud user_id lti_role sid no_effects")
  obtain m1 where m1: "consumer_calls fx5 =
      SetUserData user_id lti_role sid
        (if truthy (user_username rud) then user_username rud else None) None None # m1"
    using set_launch_data_calls[of rt self rud user_id lti_role sid no_effects] s
    by (auto simp: no_effects_def)
  show ?thesis
  proof (cases r)
    case (Inl e)
    with s m1 show ?thesis
      unfolding handler_after_identity[OF assms] by (simp add: and_then_def)
  next
    case (Inr u)
    obtain m2 where "consumer_calls (snd (?tail u fx5)) = consumer_calls fx5 @ m2"
      using tail unfolding only_appends_def by blast
    with Inr s m1 show ?thesis
      unfolding handler_after_identity[OF assms] by (simp add: and_then_def)
  qed
qed

lemma next_query_params_eq:
  "next_query_params self =
     [(''repo'', nb_git_repo self), (''branch'', nb_git_branch self), (''urlpath'', urlpath self)]"
  by (simp add: urlpath_cases) (simp add: next_query_params_def dict_setitem_def)

subsection \<open>The sample data\<close>

lemma sample_identity:
  "identity sample_runtime =
     Inr (\<lparr>user_username = Some ''alice'', user_language = Some ''fr''\<rparr>,
          ''u-1'', ''Administrator'', ''course:link:u-1'')"
  by (simp add: identity_def sample_runtime_def lti_1p1_role_def dict_get_def LTI_1P1_ROLE_MAP_def)

lemma sample_hub_path: "sample_urlparse (hub_url sample_block) = Inr ''/jupyter/''"
  by (simp add: sample_urlparse_def sample_urlparse_path_def sample_block_def)

lemma sample_bad_hub: "sample_urlparse ''https://[hub'' = Inl (ValueError ''Invalid IPv6 URL'')"
  by (simp add: sample_urlparse_def)

section \<open>The claims\<close>

text \<open>
  Claim C1: a registered parameter processor that raises is logged and skipped, and the
  handler still answers with the 200 launch form. The handler of lines 232-235 calls
  \<^verbatim>\<open>log.exception\<close>, and the module binds \<^verbatim>\<open>logger\<close>, not \<^verbatim>\<open>log\<close>: with one
  processor that returns and one that raises, the handler ends in \<^verbatim>\<open>NameError\<close> instead
  of a response, and the only log record is the line written before the loop.
\<close>

theorem raising_processor_fails_launch:
  "fst (lti_launch_handler
          (sample_runtime\<lparr>get_parameter_processors := [good_processor, raising_processor]\<rparr>)
          sample_block) = Inl (NameError ''log'') \<and>
   log_records (snd (lti_launch_handler
          (sample_runtime\<lparr>get_parameter_processors := [good_processor, raising_processor]\<rparr>)
          sample_block)) = [(''INFO'', fetching_log_message sample_block)]"
proof -
  let ?rt = "sample_runtime\<lparr>get_parameter_processors := [good_processor, raising_processor]\<rparr>"
  have i: "identity ?rt =
          Inr (\<lparr>user_username = Some ''alice'', user_language = Some ''fr''\<rparr>,
               ''u-1'', ''Administrator'', ''course:link:u-1'')"
    using sample_identity by (simp add: identity_def sample_runtime_def)
  have p: "\<exists>p\<in>set (get_parameter_processors ?rt). isl (call p sample_block)"
    by (simp add: raising_processor_def)
  have u: "urlparse_path ?rt (hub_url sample_block) = Inr ''/jupyter/''"
    using sample_hub_path by (simp add: sample_runtime_def)
  show ?thesis
    by (rule handler_processor_raises[OF _ i _ _ _ _ _ _ u p])
       (simp_all add: sample_runtime_def)
qed

text \<open>
  Claim C2, as stated: exactly four interface values make the redirect path collapse to the
  interface value. The list of line 145 has five entries, and each of the five collapses.
\<close>

theorem four_no_document_values_counterexample:
  "card (set no_document_interfaces) \<noteq> 4 \<and>
   urlpath (sample_block\<lparr>urlbasepath := ''terminals/1''\<rparr>) = ''terminals/1'' \<and>
   urlpath (sample_block\<lparr>urlbasepath := ''rstudio''\<rparr>) = ''rstudio'' \<and>
   urlpath (sample_block\<lparr>urlbasepath := ''openrefine''\<rparr>) = ''openrefine'' \<and>
   urlpath (sample_block\<lparr>urlbasepath := ''Desktop''\<rparr>) = ''Desktop'' \<and>
   urlpath (sample_block\<lparr>urlbasepath := ''code-server''\<rparr>) = ''code-server''"
  by (simp add: urlpath_cases no_document_interfaces_def)

text \<open>
  Claim C2, amended: the interface values without a document are the five of line 145
  (\<^verbatim>\<open>terminals/1\<close>, \<^verbatim>\<open>rstudio\<close>, \<^verbatim>\<open>openrefine\<close>, \<^verbatim>\<open>Desktop\<close>,
  \<^verbatim>\<open>code-server\<close>), and for each of them the redirect path is the interface value alone.
\<close>

theorem urlpath_without_document:
  "set no_document_interfaces =
     {''terminals/1'', ''rstudio'', ''openrefine'', ''Desktop'', ''code-server''} \<and>
   card (set no_document_interfaces) = 5 \<and>
   (urlbasepath self \<in> set no_document_interfaces \<longrightarrow> urlpath self = urlbasepath self)"
  by (simp add: urlpath_cases) (simp add: no_document_interfaces_def)

text \<open>
  The amended claim at the terminal interface.
\<close>

theorem urlpath_without_document_witness:
  "urlbasepath (sample_block\<lparr>urlbasepath := ''terminals/1''\<rparr>) \<in> set no_document_interfaces \<and>
   urlpath (sample_block\<lparr>urlbasepath := ''terminals/1''\<rparr>) = ''terminals/1''"
proof -
  have h: "urlbasepath (sample_block\<lparr>urlbasepath := ''terminals/1''\<rparr>) \<in> set no_document_interfaces"
    by (simp add: no_document_interfaces_def)
  with urlpath_without_document[of "sample_block\<lparr>urlbasepath := ''terminals/1''\<rparr>"]
  show ?thesis by simp
qed

text \<open>
  Claim C3, as stated: whenever identity extraction does not raise \<^verbatim>\<open>LtiError\<close>, the
  handler returns 200. Two runs in which it returns no response: the first call of the
  \<^verbatim>\<open>try\<close> block raises an exception of another kind, which \<^verbatim>\<open>except LtiError\<close>
  lets through; and identity extraction completes, no processor is registered, and
  \<^verbatim>\<open>urlparse\<close> raises \<^verbatim>\<open>ValueError\<close> on the hub URL \<^verbatim>\<open>https://[hub\<close> when line
  225 reads \<^verbatim>\<open>prefixed_custom_parameters\<close>, outside every \<^verbatim>\<open>try\<close>.
\<close>

theorem propagating_exceptions_counterexample:
  "identity (sample_runtime\<lparr>extract_real_user_data := Inl (OtherError ''no user service'')\<rparr>)
     = Inl (OtherError ''no user service'') \<and>
   fst (lti_launch_handler
          (sample_runtime\<lparr>extract_real_user_data := Inl (OtherError ''no user service'')\<rparr>)
          sample_block) = Inl (OtherError ''no user service'') \<and>
   identity sample_runtime =
     Inr (\<lparr>user_username = Some ''alice'', user_language = Some ''fr''\<rparr>,
          ''u-1'', ''Administrator'', ''course:link:u-1'') \<and>
   get_parameter_processors sample_runtime = [] \<and>
   fst (lti_launch_handler sample_runtime (sample_block\<lparr>hub_url := ''https://[hub''\<rparr>))
     = Inl (ValueError ''Invalid IPv6 URL'')"
proof -
  let ?rt = "sample_runtime\<lparr>extract_real_user_data := Inl (OtherError ''no user service'')\<rparr>"
  have i: "identity ?rt = Inl (OtherError ''no user service'')"
    by (simp add: identity_def sample_runtime_def)
  have 1: "fst (lti_launch_handler ?rt sample_block) = Inl (OtherError ''no user service'')"
    using handler_other_error[OF _ i, of sample_block] by (simp add: sample_runtime_def)
  have u: "urlparse_path sample_runtime (hub_url (sample_block\<lparr>hub_url := ''https://[hub''\<rparr>))
             = Inl (ValueError ''Invalid IPv6 URL'')"
    using sample_bad_hub by (simp add: sample_runtime_def)
  have 2: "fst (lti_launch_handler sample_runtime (sample_block\<lparr>hub_url := ''https://[hub''\<rparr>))
     = Inl (ValueError ''Invalid IPv6 URL'')"
    by (rule handler_urlparse_raises[OF _ sample_identity _ _ _ _ _ _ u])
       (simp_all add: sample_runtime_def)
  show ?thesis using i 1 2 sample_identity by (simp add: sample_runtime_def)
qed

text \<open>
  Claim C3, amended. If the launch builder is obtained (line 175) and identity extraction
  raises \<^verbatim>\<open>LtiError\<close>, the response has status 400 and the error's message appears
  in its body. If the launch builder is obtained, identity extraction completes, every
  registered processor returns, and every other call the handler makes outside its
  \<^verbatim>\<open>try\<close> blocks returns, the response has status 200 and the serialized launch
  parameters are embedded in its body. An exception of another kind raised during identity
  extraction, and an exception raised when the launch builder is obtained, leave the
  handler.
\<close>

theorem lti_launch_handler_responses:
  "(get_lti_consumer rt = Inr () \<and> identity rt = Inl (LtiError msg) \<longrightarrow>
      fst (lti_launch_handler rt self) =
        Inr \<lparr>status = 400,
             body = error_page_before rt @ msg @ error_page_after rt,
             content_type = ''text/html''\<rparr> \<and>
      sublist msg (body (projr (fst (lti_launch_handler rt self))))) \<and>
   (get_lti_consumer rt = Inr () \<and> identity rt = Inr x \<and>
    (\<forall>c. builder_raises rt c = None) \<and>
    context_id rt = Inr cid \<and>
    course_display_name_with_default rt = Inr title \<and>
    course_display_org_with_default rt = Inr org \<and>
    (has_score rt \<longrightarrow> \<not> isl (outcome_service_url rt)) \<and>
    super_prefixed_custom_parameters_raises rt = None \<and>
    urlparse_path rt (hub_url self) = Inr path \<and>
    (\<forall>p\<in>set (get_parameter_processors rt). \<not> isl (call p self)) \<and>
    get_parameter_processors_raises rt = None \<and>
    resource_link_id rt = Inr link \<and>
    (\<forall>calls. \<not> isl (generate_launch_request rt calls link)) \<and>
    track_event_raises rt = None \<and>
    get_context_for_template rt = Inr ctx \<longrightarrow>
      (\<exists>params.
         generate_launch_request rt (consumer_calls (snd (lti_launch_handler rt self))) link
           = Inr params \<and>
         fst (lti_launch_handler rt self) =
           Inr \<lparr>status = 200,
                body = launch_page_before rt
                         (AList.update ''lti_parameters'' (CtxDict params) ctx)
                       @ serialize_parameters rt params
                       @ launch_page_after rt
                           (AList.update ''lti_parameters'' (CtxDict params) ctx),
                content_type = ''text/html''\<rparr> \<and>
         sublist (serialize_parameters rt params)
           (body (projr (fst (lti_launch_handler rt self)))))) \<and>
   (get_lti_consumer rt = Inr () \<and> identity rt = Inl e \<and> (\<forall>m. e \<noteq> LtiError m) \<longrightarrow>
      fst (lti_launch_handler rt self) = Inl e) \<and>
   (get_lti_consumer rt = Inl e \<longrightarrow> fst (lti_launch_handler rt self) = Inl e)"
proof (intro conjI impI)
  assume a: "get_lti_consumer rt = Inr () \<and> identity rt = Inl (LtiError msg)"
  then show r: "fst (lti_launch_handler rt self) =
        Inr \<lparr>status = 400,
             body = error_page_before rt @ msg @ error_page_after rt,
             content_type = ''text/html''\<rparr>"
    using handler_lti_error[of rt msg self] by simp
  show "sublist msg (body (projr (fst (lti_launch_handler rt self))))"
    unfolding r by simp
next
  assume a: "get_lti_consumer rt = Inr () \<and> identity rt = Inr x \<and>
    (\<forall>c. builder_raises rt c = None) \<and>
    context_id rt = Inr cid \<and>
    course_display_name_with_default rt = Inr title \<and>
    course_display_org_with_default rt = Inr org \<and>
    (has_score rt \<longrightarrow> \<not> isl (outcome_service_url rt)) \<and>
    super_prefixed_custom_parameters_raises rt = None \<and>
    urlparse_path rt (hub_url self) = Inr path \<and>
    (\<forall>p\<in>set (get_parameter_processors rt). \<not> isl (call p self)) \<and>
    get_parameter_processors_raises rt = None \<and>
    resource_link_id rt = Inr link \<and>
    (\<forall>calls. \<not> isl (generate_launch_request rt calls link)) \<and>
    track_event_raises rt = None \<and>
    get_context_for_template rt = Inr ctx"
  then obtain params where
    g: "generate_launch_request rt (consumer_calls (snd (lti_launch_handler rt self))) link
           = Inr params"
    and r: "fst (lti_launch_handler rt self) =
           Inr \<lparr>status = 200,
                body = launch_page_before rt
                         (AList.update ''lti_parameters'' (CtxDict params) ctx)
                       @ serialize_parameters rt params
                       @ launch_page_after rt
                           (AList.update ''lti_parameters'' (CtxDict params) ctx),
                content_type = ''text/html''\<rparr>"
    using handler_success[where rt = rt and x = x and cid = cid and title = title and org = org
        and self = self and path = path and link = link and ctx = ctx] by blast
  have "sublist (serialize_parameters rt params)
           (body (projr (fst (lti_launch_handler rt self))))"
    unfolding r by simp
  with g r show "\<exists>params.
         generate_launch_request rt (consumer_calls (snd (lti_launch_handler rt self))) link
           = Inr params \<and>
         fst (lti_launch_handler rt self) =
           Inr \<lparr>status = 200,
                body = launch_page_before rt
                         (AList.update ''lti_parameters'' (CtxDict params) ctx)
                       @ serialize_parameters rt params
                       @ launch_page_after rt
                           (AList.update ''lti_parameters'' (CtxDict params) ctx),
                content_type = ''text/html''\<rparr> \<and>
         sublist (serialize_parameters rt params)
           (body (projr (fst (lti_launch_handler rt self))))"
    by blast
next
  assume "get_lti_consumer rt = Inr () \<and> identity rt = Inl e \<and> (\<forall>m. e \<noteq> LtiError m)"
  then show "fst (lti_launch_handler rt self) = Inl e"
    using handler_other_error[of rt e self] by simp
next
  assume "get_lti_consumer rt = Inl e"
  then show "fst (lti_launch_handler rt self) = Inl e"
    by (simp add: handler_no_consumer)
qed

text \<open>
  The four cases of the amended claim on sample data.
\<close>

theorem lti_launch_handler_responses_witness:
  "identity (sample_runtime\<lparr>role := Inl (LtiError ''no user'')\<rparr>) = Inl (LtiError ''no user'') \<and>
   fst (lti_launch_handler (sample_runtime\<lparr>role := Inl (LtiError ''no user'')\<rparr>) sample_block)
     = Inr \<lparr>status = 400, body = ''<p>no user</p>'', content_type = ''text/html''\<rparr> \<and>
   sublist ''no user'' ''<p>no user</p>'' \<and>
   isl (identity (sample_runtime\<lparr>get_parameter_processors := [good_processor]\<rparr>)) = False \<and>
   isl (call good_processor sample_block) = False \<and>
   status (projr (fst (lti_launch_handler
                          (sample_runtime\<lparr>get_parameter_processors := [good_processor]\<rparr>)
                          sample_block))) = 200 \<and>
   sublist ''<input type=hidden name=lti_version value=LTI-1p0>''
     (body (projr (fst (lti_launch_handler
                          (sample_runtime\<lparr>get_parameter_processors := [good_processor]\<rparr>)
                          sample_block)))) \<and>
   fst (lti_launch_handler (sample_runtime\<lparr>role := Inl (OtherError ''x'')\<rparr>) sample_block)
     = Inl (OtherError ''x'') \<and>
   fst (lti_launch_handler (sample_runtime\<lparr>get_lti_consumer := Inl (LtiError ''passport'')\<rparr>)
          sample_block)
     = Inl (LtiError ''passport'')"
proof -
  let ?bad = "sample_runtime\<lparr>role := Inl (LtiError ''no user'')\<rparr>"
  let ?good = "sample_runtime\<lparr>get_parameter_processors := [good_processor]\<rparr>"
  let ?other = "sample_runtime\<lparr>role := Inl (OtherError ''x'')\<rparr>"
  let ?none = "sample_runtime\<lparr>get_lti_consumer := Inl (LtiError ''passport'')\<rparr>"
  let ?x = "(\<lparr>user_username = Some ''alice'', user_language = Some ''fr''\<rparr>,
               ''u-1'', ''Administrator'', ''course:link:u-1'')"
  let ?ctx = "[(''launch_url'', CtxStr ''https://hub.example.org/jupyter/hub/lti/launch'')]"
  have b: "get_lti_consumer ?bad = Inr () \<and> identity ?bad = Inl (LtiError ''no user'')"
    by (simp add: identity_def sample_runtime_def)
  have pages: "error_page_before ?bad = ''<p>''" "error_page_after ?bad = ''</p>''"
    "launch_page_before ?good = (\<lambda>c. ''<form>'')" "launch_page_after ?good = (\<lambda>c. ''</form>'')"
    "serialize_parameters ?good = sample_serialize" "generate_launch_request ?good = sample_generate"
    by (simp_all add: sample_runtime_def)
  have g: "identity ?good = Inr ?x"
    using sample_identity by (simp add: identity_def sample_runtime_def)
  have o: "get_lti_consumer ?other = Inr () \<and> identity ?other = Inl (OtherError ''x'') \<and>
           (\<forall>m. OtherError ''x'' \<noteq> LtiError m)"
    by (simp add: identity_def sample_runtime_def)
  have n: "get_lti_consumer ?none = Inl (LtiError ''passport'')"
    by simp
  have u: "urlparse_path ?good (hub_url sample_block) = Inr ''/jupyter/''"
    using sample_hub_path by (simp add: sample_runtime_def)
  have gp: "isl (call good_processor sample_block) = False"
    by (simp add: good_processor_def)
  have hyps: "get_lti_consumer ?good = Inr () \<and> identity ?good = Inr ?x \<and>
    (\<forall>c. builder_raises ?good c = None) \<and>
    context_id ?good = Inr ''course-v1:X+Y+Z'' \<and>
    course_display_name_with_default ?good = Inr ''Course'' \<and>
    course_display_org_with_default ?good = Inr ''Org'' \<and>
    (has_score ?good \<longrightarrow> \<not> isl (outcome_service_url ?good)) \<and>
    super_prefixed_custom_parameters_raises ?good = None \<and>
    urlparse_path ?good (hub_url sample_block) = Inr ''/jupyter/'' \<and>
    (\<forall>p\<in>set (get_parameter_processors ?good). \<not> isl (call p sample_block)) \<and>
    get_parameter_processors_raises ?good = None \<and>
    resource_link_id ?good = Inr ''link'' \<and>
    (\<forall>calls. \<not> isl (generate_launch_request ?good calls ''link'')) \<and>
    track_event_raises ?good = None \<and>
    get_context_for_template ?good = Inr ?ctx"
    using g u gp by (simp add: sample_runtime_def sample_generate_def)
  note t400 = lti_launch_handler_responses[where rt = ?bad and msg = "''no user''"
      and self = sample_block, THEN conjunct1, rule_format, OF b]
  note t200 = lti_launch_handler_responses[where rt = ?good and x = ?x and self = sample_block
      and cid = "''course-v1:X+Y+Z''" and title = "''Course''" and org = "''Org''"
      and path = "''/jupyter/''" and link = "''link''" and ctx = ?ctx,
      THEN conjunct2, THEN conjunct1, rule_format, OF hyps]
  note tother = lti_launch_handler_responses[where rt = ?other and self = sample_block
      and e = "OtherError ''x''", THEN conjunct2, THEN conjunct2, THEN conjunct1, rule_format, OF o]
  note tnone = lti_launch_handler_responses[where rt = ?none and self = sample_block
      and e = "LtiError ''passport''", THEN conjunct2, THEN conjunct2, THEN conjunct2,
      rule_format, OF n]
  have r400: "fst (lti_launch_handler ?bad sample_block) =
        Inr \<lparr>status = 400, body = ''<p>no user</p>'', content_type = ''text/html''\<rparr>"
    using t400 by (simp add: pages)
  from t400 have "sublist ''no user''
      (body (projr (fst (lti_launch_handler ?bad sample_block))))"
    by blast
  then have s400: "sublist ''no user'' ''<p>no user</p>''"
    unfolding r400 by simp
  from t200 obtain params where
    p: "sample_generate (consumer_calls (snd (lti_launch_handler ?good sample_block))) ''link''
          = Inr params"
    and r: "fst (lti_launch_handler ?good sample_block) =
           Inr \<lparr>status = 200,
                body = ''<form>'' @ sample_serialize params @ ''</form>'',
                content_type = ''text/html''\<rparr>"
    and sl: "sublist (sample_serialize params)
           (body (projr (fst (lti_launch_handler ?good sample_block))))"
    unfolding pages by blast
  have r200: "status (projr (fst (lti_launch_handler ?good sample_block))) = 200"
    unfolding r by simp
  obtain more where "params = (''lti_version'', ''LTI-1p0'') # more"
    using p by (auto simp: sample_generate_def)
  then have "sample_serialize params =
      ''<input type=hidden name=lti_version value=LTI-1p0>'' @ sample_serialize more"
    by (simp add: sample_serialize_def)
  then have "sublist ''<input type=hidden name=lti_version value=LTI-1p0>''
      (sample_serialize params)"
    by (metis prefix_imp_sublist prefixI)
  with sl have s200: "sublist ''<input type=hidden name=lti_version value=LTI-1p0>''
     (body (projr (fst (lti_launch_handler ?good sample_block))))"
    using sublist_order.order_trans by blast
  show ?thesis
    using b g gp r400 s400 r200 s200 tother tnone by simp
qed

text \<open>
  Claim C4: the role sent in the launch is \<^verbatim>\<open>Student,Learner\<close> for \<^verbatim>\<open>student\<close>,
  \<^verbatim>\<open>Administrator\<close> for \<^verbatim>\<open>staff\<close>, \<^verbatim>\<open>Instructor\<close> for \<^verbatim>\<open>instructor\<close>, and
  \<^verbatim>\<open>Student,Learner\<close> for every other platform role; once the launch builder is
  obtained and identity extraction has completed, it is the role of the first call made on
  the builder.
\<close>

theorem lti_1p1_role_mapping:
  "lti_1p1_role r =
     (if r = ''student'' then ''Student,Learner''
      else if r = ''staff'' then ''Administrator''
      else if r = ''instructor'' then ''Instructor''
      else ''Student,Learner'') \<and>
   (get_lti_consumer rt = Inr () \<and> role rt = Inr r \<and>
    identity rt = Inr (rud, user_id, lti_role, sid) \<longrightarrow>
      (\<exists>more. consumer_calls (snd (lti_launch_handler rt self)) =
         SetUserData user_id (lti_1p1_role r) sid
           (if truthy (user_username rud) then user_username rud else None) None None # more))"
proof -
  have "lti_1p1_role r =
     (if r = ''student'' then ''Student,Learner''
      else if r = ''staff'' then ''Administrator''
      else if r = ''instructor'' then ''Instructor''
      else ''Student,Learner'')"
    by (simp add: lti_1p1_role_def dict_get_def LTI_1P1_ROLE_MAP_def)
  moreover have "\<exists>more. consumer_calls (snd (lti_launch_handler rt self)) =
         SetUserData user_id (lti_1p1_role r) sid
           (if truthy (user_username rud) then user_username rud else None) None None # more"
    if "get_lti_consumer rt = Inr ()" and "role rt = Inr r"
      and "identity rt = Inr (rud, user_id, lti_role, sid)"
    using handler_calls[OF that(1) that(3), of self] identity_role[OF that(3) that(2)] by simp
  ultimately show ?thesis by blast
qed

text \<open>
  The mapping at the role \<^verbatim>\<open>staff\<close>, through the handler.
\<close>

theorem lti_1p1_role_mapping_witness:
  "get_lti_consumer sample_runtime = Inr () \<and>
   role sample_runtime = Inr ''staff'' \<and>
   identity sample_runtime =
     Inr (\<lparr>user_username = Some ''alice'', user_language = Some ''fr''\<rparr>,
          ''u-1'', ''Administrator'', ''course:link:u-1'') \<and>
   hd (consumer_calls (snd (lti_launch_handler sample_runtime sample_block))) =
     SetUserData ''u-1'' ''Administrator'' ''course:link:u-1'' (Some ''alice'') None None"
proof -
  let ?rud = "\<lparr>user_username = Some ''alice'', user_language = Some ''fr''\<rparr>"
  have c: "get_lti_consumer sample_runtime = Inr ()"
    by (simp add: sample_runtime_def)
  have r: "role sample_runtime = Inr ''staff''"
    by (simp add: sample_runtime_def)
  note i = sample_identity
  from lti_1p1_role_mapping[where r = "''staff''" and rt = sample_runtime and rud = ?rud
      and user_id = "''u-1''" and lti_role = "''Administrator''" and sid = "''course:link:u-1''"
      and self = sample_block] c r i
  obtain more where "lti_1p1_role ''staff'' = ''Administrator''"
    and "consumer_calls (snd (lti_launch_handler sample_runtime sample_block)) =
         SetUserData ''u-1'' (lti_1p1_role ''staff'') ''course:link:u-1''
           (if truthy (user_username ?rud) then user_username ?rud else None) None None # more"
    by auto
  then show ?thesis using c r i by (simp add: truthy_def)
qed

text \<open>
  Claim C5: for an interface value outside the list of line 145, the redirect path is the
  interface value, the basename of the repository URL and the file path, joined by
  \<^verbatim>\<open>/\<close>. The basename is what follows the last \<^verbatim>\<open>/\<close> of the URL.
\<close>

theorem urlpath_with_document:
  "(urlbasepath self \<notin> set no_document_interfaces \<longrightarrow>
      urlpath self =
        urlbasepath self @ ''/'' @ basename (nb_git_repo self) @ ''/'' @ nb_git_file self) \<and>
   CHR ''/'' \<notin> set (basename (nb_git_repo self)) \<and>
   (\<exists>d. nb_git_repo self = d @ basename (nb_git_repo self) \<and> (d = [] \<or> last d = CHR ''/''))"
  using basename_no_slash[of "nb_git_repo self"] basename_suffix[of "nb_git_repo self"]
  by (simp add: urlpath_cases)

text \<open>
  The claim at the default configuration.
\<close>

theorem urlpath_with_document_witness:
  "urlbasepath sample_block \<notin> set no_document_interfaces \<and>
   urlpath sample_block = ''lab/tree/jupytermc-xblock.git/static/notebooks/hello.ipynb''"
proof -
  have h: "urlbasepath sample_block \<notin> set no_document_interfaces"
    by (simp add: sample_block_def no_document_interfaces_def)
  have b: "basename (nb_git_repo sample_block) = ''jupytermc-xblock.git''"
    by (simp add: sample_block_def basename_after_last_slash)
  from urlpath_with_document[of sample_block] h
  have "urlpath sample_block =
        urlbasepath sample_block @ ''/'' @ basename (nb_git_repo sample_block) @ ''/''
          @ nb_git_file sample_block"
    by blast
  then show ?thesis using h by (simp add: b) (simp add: sample_block_def)
qed



text \<open>
  Claim C7: for each of the four interface values \<^verbatim>\<open>rstudio\<close>, \<^verbatim>\<open>openrefine\<close>,
  \<^verbatim>\<open>Desktop\<close> and \<^verbatim>\<open>code-server\<close> the launch target is \<^verbatim>\<open>new_window\<close>; for every
  other value it is what the base class returns.
\<close>

theorem launch_target_by_interface:
  "(urlbasepath self \<in> {''rstudio'', ''openrefine'', ''Desktop'', ''code-server''} \<longrightarrow>
      launch_target self = ''new_window'') \<and>
   (urlbasepath self \<notin> {''rstudio'', ''openrefine'', ''Desktop'', ''code-server''} \<longrightarrow>
      launch_target self = super_launch_target self) \<and>
   card {''rstudio'', ''openrefine'', ''Desktop'', ''code-server''} = 4"
  by (simp add: launch_target_def new_window_interfaces_def)

text \<open>
  Both cases of the claim on sample data.
\<close>

theorem launch_target_by_interface_witness:
  "urlbasepath (sample_block\<lparr>urlbasepath := ''Desktop''\<rparr>)
     \<in> {''rstudio'', ''openrefine'', ''Desktop'', ''code-server''} \<and>
   launch_target (sample_block\<lparr>urlbasepath := ''Desktop''\<rparr>) = ''new_window'' \<and>
   urlbasepath sample_block \<notin> {''rstudio'', ''openrefine'', ''Desktop'', ''code-server''} \<and>
   launch_target sample_block = ''iframe''"
proof -
  have a: "urlbasepath (sample_block\<lparr>urlbasepath := ''Desktop''\<rparr>)
             \<in> {''rstudio'', ''openrefine'', ''Desktop'', ''code-server''}"
    by simp
  have b: "urlbasepath sample_block \<notin> {''rstudio'', ''openrefine'', ''Desktop'', ''code-server''}"
    by (simp add: sample_block_def)
  from launch_target_by_interface[of "sample_block\<lparr>urlbasepath := ''Desktop''\<rparr>"] a
  have 1: "launch_target (sample_block\<lparr>urlbasepath := ''Desktop''\<rparr>) = ''new_window''"
    by blast
  from launch_target_by_interface[of sample_block] b
  have 2: "launch_target sample_block = super_launch_target sample_block"
    by blast
  show ?thesis using a b 1 by (simp add: 2) (simp add: sample_block_def)
qed

text \<open>
  Claim C8: the reported protocol version is \<^verbatim>\<open>lti_1p1\<close> whatever the fields of the
  block and the values inherited from the base class are.
\<close>

theorem lti_version_fixed:
  "lti_version self = ''lti_1p1'' \<and> lti_version self = lti_version other"
  by (simp add: lti_version_def)

text \<open>
  Claim C9: the option list of the interface selector is a well-formed sequence of seven
  entries. As written, the list lacks the comma after the fourth, fifth and sixth entries:
  reading it stops at the fifth entry (token 8) with a syntax error. With the commas in
  place the list has the seven values the claim names.
\<close>

theorem urlbasepath_values_malformed:
  "parse_list_display urlbasepath_values_tokens = Inl (SyntaxError 8) \<and>
   map_option (map (\<lambda>d. dict_get d ''value'' []))
     (case parse_list_display urlbasepath_values_with_commas of
        Inl e \<Rightarrow> None | Inr entries \<Rightarrow> Some entries)
     = Some [''tree'', ''lab/tree'', ''rstudio'', ''terminals/1'', ''Desktop'', ''openrefine'',
             ''code-server'']"
  by (simp add: parse_list_display_def urlbasepath_values_tokens_def
        urlbasepath_values_with_commas_def dict_get_def)

text \<open>
  Claim C10: \<^verbatim>\<open>prefixed_custom_parameters\<close> is the base class's dictionary with the key
  \<^verbatim>\<open>next\<close> set to the composed URL, whatever it held before: the hub's base path, the
  segment \<^verbatim>\<open>/hub/user-redirect/git-pull\<close>, a question mark and the encoded
  \<^verbatim>\<open>repo\<close>, \<^verbatim>\<open>branch\<close> and \<^verbatim>\<open>urlpath\<close>. Every other key is unchanged, and the
  keys keep their order, \<^verbatim>\<open>next\<close> going last when it is new.
\<close>

theorem prefixed_custom_parameters_frame:
  "map_of (prefixed_custom_parameters up self) ''next'' =
     Some (strip_slash (up (hub_url self)) @ ''/hub/user-redirect/git-pull?''
           @ urlencode
               [(''repo'', nb_git_repo self),
                (''branch'', nb_git_branch self),
                (''urlpath'',
                 if urlbasepath self
                      \<in> {''terminals/1'', ''rstudio'', ''openrefine'', ''Desktop'', ''code-server''}
                 then urlbasepath self
                 else urlbasepath self @ ''/'' @ basename (nb_git_repo self) @ ''/''
                        @ nb_git_file self)]) \<and>
   (k \<noteq> ''next'' \<longrightarrow>
      map_of (prefixed_custom_parameters up self) k
        = map_of (super_prefixed_custom_parameters self) k) \<and>
   map fst (prefixed_custom_parameters up self) =
     (if ''next'' \<in> fst ` set (super_prefixed_custom_parameters self)
      then map fst (super_prefixed_custom_parameters self)
      else map fst (super_prefixed_custom_parameters self) @ [''next''])"
proof -
  have u: "urlpath self =
      (if urlbasepath self
            \<in> {''terminals/1'', ''rstudio'', ''openrefine'', ''Desktop'', ''code-server''}
       then urlbasepath self
       else urlbasepath self @ ''/'' @ basename (nb_git_repo self) @ ''/'' @ nb_git_file self)"
    by (simp add: urlpath_cases) (simp add: no_document_interfaces_def)
  have "map_of (prefixed_custom_parameters up self) ''next'' =
      Some (strip_slash (up (hub_url self)) @ ''/hub/user-redirect/git-pull?''
            @ urlencode [(''repo'', nb_git_repo self), (''branch'', nb_git_branch self),
                         (''urlpath'', urlpath self)])"
    by (simp add: prefixed_custom_parameters_def dict_setitem_map_of next_url_def
          hub_url_base_path_def next_query_params_eq)
  moreover have "k \<noteq> ''next'' \<longrightarrow>
      map_of (prefixed_custom_parameters up self) k
        = map_of (super_prefixed_custom_parameters self) k"
    by (simp add: prefixed_custom_parameters_def dict_setitem_map_of)
  moreover have "map fst (prefixed_custom_parameters up self) =
     (if ''next'' \<in> fst ` set (super_prefixed_custom_parameters self)
      then map fst (super_prefixed_custom_parameters self)
      else map fst (super_prefixed_custom_parameters self) @ [''next''])"
    by (simp add: prefixed_custom_parameters_def dict_setitem_def update_keys)
  ultimately show ?thesis unfolding u by blast
qed

text \<open>
  The claim on a base dictionary that already holds \<^verbatim>\<open>next\<close>.
\<close>

theorem prefixed_custom_parameters_frame_witness:
  "''custom_a'' \<noteq> ''next'' \<and>
   map_of (super_prefixed_custom_parameters sample_block) ''next'' = Some ''elsewhere'' \<and>
   map_of (prefixed_custom_parameters sample_urlparse_path sample_block) ''next''
     = Some ''jupyter/hub/user-redirect/git-pull?repo=https%3A%2F%2Fgithub.com%2Fcalculquebec%2Fjupytermc-xblock.git&branch=main&urlpath=lab%2Ftree%2Fjupytermc-xblock.git%2Fstatic%2Fnotebooks%2Fhello.ipynb'' \<and>
   map_of (prefixed_custom_parameters sample_urlparse_path sample_block) ''custom_a'' = Some ''1'' \<and>
   map fst (prefixed_custom_parameters sample_urlparse_path sample_block) = [''custom_a'', ''next'']"
proof -
  have h: "''custom_a'' \<noteq> ''next''" by simp
  have b: "strip_slash (sample_urlparse_path (hub_url sample_block)) = ''jupyter''"
    by (simp add: sample_urlparse_path_def sample_block_def strip_slash_def lstrip_slash_def)
  have q: "urlencode
             [(''repo'', ''https://github.com/calculquebec/jupytermc-xblock.git''),
              (''branch'', ''main''),
              (''urlpath'', ''lab/tree/jupytermc-xblock.git/static/notebooks/hello.ipynb'')]
           = ''repo=https%3A%2F%2Fgithub.com%2Fcalculquebec%2Fjupytermc-xblock.git&branch=main&urlpath=lab%2Ftree%2Fjupytermc-xblock.git%2Fstatic%2Fnotebooks%2Fhello.ipynb''"
    by code_simp
  have bn: "basename (nb_git_repo sample_block) = ''jupytermc-xblock.git''"
    by (simp add: sample_block_def basename_after_last_slash)
  from prefixed_custom_parameters_frame[of sample_urlparse_path sample_block "''custom_a''"] h
  have "map_of (prefixed_custom_parameters sample_urlparse_path sample_block) ''next'' =
     Some (strip_slash (sample_urlparse_path (hub_url sample_block))
           @ ''/hub/user-redirect/git-pull?''
           @ urlencode
               [(''repo'', nb_git_repo sample_block),
                (''branch'', nb_git_branch sample_block),
                (''urlpath'',
                 if urlbasepath sample_block
                      \<in> {''terminals/1'', ''rstudio'', ''openrefine'', ''Desktop'', ''code-server''}
                 then urlbasepath sample_block
                 else urlbasepath sample_block @ ''/'' @ basename (nb_git_repo sample_block) @ ''/''
                        @ nb_git_file sample_block)])"
    and "map_of (prefixed_custom_parameters sample_urlparse_path sample_block) ''custom_a''
          = map_of (super_prefixed_custom_parameters sample_block) ''custom_a''"
    and "map fst (prefixed_custom_parameters sample_urlparse_path sample_block) =
     (if ''next'' \<in> fst ` set (super_prefixed_custom_parameters sample_block)
      then map fst (super_prefixed_custom_parameters sample_block)
      else map fst (super_prefixed_custom_parameters sample_block) @ [''next''])"
    by blast+
  then show ?thesis
    unfolding b bn by (simp add: sample_block_def q)
qed

end
